theory Spec2Isabelle
  imports Main
begin

section \<open>Fact matching (sling/nlp/wikicat/fact\_matcher.py)\<close>

subsection \<open>Values, dates and match types\<close>

text \<open>
  A frame of the knowledge base is named by its identifier: \<open>kb["P279"]\<close> is the frame
  \<open>''P279''\<close>. Python compares frames by identity, which is equality of names here.
  A fact target is a frame, an integer or a string (existing dates are stored as
  integers or strings, see the comment at line 221 of the source).
\<close>

type_synonym frame = string

datatype val = Frame frame | IntV int | StrV string

text \<open>The enum \<open>FactMatchType\<close>, lines 27 to 33.\<close>

datatype FactMatchType =
  NEW | EXACT | SUBSUMES_EXISTING | SUBSUMED_BY_EXISTING | CONFLICT | ADDITIONAL

text \<open>
  Modelled from the spec: the precision constants \<open>sling.MILLENNIUM\<close>, ... of the sling
  module are not in the source files. The spec gives the ordered set
  MILLENNIUM, CENTURY, DECADE, YEAR, MONTH, DAY, coarsest to finest; \<open>prec_rank\<close> is the
  integer the source compares with \<open>\<le>\<close>.
\<close>

datatype precision = MILLENNIUM | CENTURY | DECADE | YEAR | MONTH | DAY

fun prec_rank :: "precision \<Rightarrow> nat" where
  "prec_rank MILLENNIUM = 1"
| "prec_rank CENTURY = 2"
| "prec_rank DECADE = 3"
| "prec_rank YEAR = 4"
| "prec_rank MONTH = 5"
| "prec_rank DAY = 6"

text \<open>A \<open>sling.Date\<close> object: the attributes the source reads.\<close>

record date =
  precision :: precision
  year :: int
  month :: int
  day :: int

datatype error = AssertionError | IndexError

subsection \<open>The date comparator\<close>

text \<open>\<open>FactMatcher._finer_date\<close>, lines 163 to 178.\<close>

definition finer_date :: "date \<Rightarrow> date \<Rightarrow> bool" where
  "finer_date first second =
     (if prec_rank (precision first) \<le> prec_rank (precision second) then False
      else if precision second = MILLENNIUM then
        year first \<ge> year second \<and> year first < year second + 1000
      else if precision second = CENTURY then
        year first \<ge> year second \<and> year first < year second + 100
      else if precision second = DECADE then
        year first \<ge> year second \<and> year first < year second + 10
      else if precision second = YEAR then
        year first = year second
      else if precision second = MONTH then
        year first = year second \<and> month first = month second
      else False)"

text \<open>
  The spec's words for section 4.4: the calendar granule a date denotes, by its
  precision. For DAY the spec leaves the granule open; it is the day itself here.
\<close>

definition in_granule :: "date \<Rightarrow> date \<Rightarrow> bool" where
  "in_granule first second =
     (case precision second of
        MILLENNIUM \<Rightarrow> year second \<le> year first \<and> year first < year second + 1000
      | CENTURY \<Rightarrow> year second \<le> year first \<and> year first < year second + 100
      | DECADE \<Rightarrow> year second \<le> year first \<and> year first < year second + 10
      | YEAR \<Rightarrow> year first = year second
      | MONTH \<Rightarrow> year first = year second \<and> month first = month second
      | DAY \<Rightarrow> year first = year second \<and> month first = month second \<and> day first = day second)"

definition strictly_finer :: "date \<Rightarrow> date \<Rightarrow> bool" where
  "strictly_finer first second = (prec_rank (precision second) < prec_rank (precision first))"

text \<open>
  A date is aligned when its year is the first year of the granule it denotes:
  a multiple of 1000 for a millennium, of 100 for a century, of 10 for a decade.
\<close>

definition aligned :: "date \<Rightarrow> bool" where
  "aligned d =
     (case precision d of
        MILLENNIUM \<Rightarrow> year d mod 1000 = 0
      | CENTURY \<Rightarrow> year d mod 100 = 0
      | DECADE \<Rightarrow> year d mod 10 = 0
      | _ \<Rightarrow> True)"

subsection \<open>The collaborators of the matcher\<close>

text \<open>
  The sling module, the knowledge base and the fact extractor are not in the source files;
  the matcher reaches them through the calls below, which are parameters of the model.
  The \<open>store\<close> argument of the source is the arena the extractor allocates its results
  in; no result depends on it and it is left out.

  \<open>Date\<close> is the constructor \<open>sling.Date(x)\<close> and \<open>date_value\<close> the method
  \<open>Date.value()\<close>, which returns an integer or a string.
\<close>

record sling_module =
  Date :: "val \<Rightarrow> date"
  date_value :: "date \<Rightarrow> val"

text \<open>
  \<open>resolve\<close> is \<open>kb.resolve\<close> on an entity. Lines 106 to 125 of \<open>__init__\<close> read the
  target, role and constraint slots of every property through the frame interface of
  sling; the three collections they build are the fields \<open>unique_scan\<close>, \<open>date_scan\<close>
  and \<open>location_scan\<close> of the knowledge base (the last one a list, in the order the
  source iterates over it).
\<close>

record knowledge_base =
  resolve :: "frame \<Rightarrow> frame"
  unique_scan :: "frame set"
  date_scan :: "frame set"
  location_scan :: "frame list"

text \<open>
  \<open>facts_for item [pid] closure\<close> returns a sequence of facts, each one the properties of
  a path followed by the target; \<open>in_closure relation coarse fine\<close> is the reachability
  test between entities.
\<close>

record fact_extractor =
  facts_for :: "frame \<Rightarrow> frame list \<Rightarrow> bool \<Rightarrow> val list list"
  in_closure :: "frame \<Rightarrow> frame \<Rightarrow> frame \<Rightarrow> bool"

subsection \<open>The matcher\<close>

text \<open>The attributes of a \<open>FactMatcher\<close> object, and the module it imports.\<close>

record fact_matcher =
  sling :: sling_module
  kb :: knowledge_base
  extractor :: fact_extractor
  unique_properties :: "frame set"
  date_properties :: "frame set"
  location_properties :: "frame list"
  closure_properties :: "frame \<rightharpoonup> frame"
  p_subclass :: frame
  p_parent_org :: frame

text \<open>
  \<open>FactMatcher.__init__\<close>, with lines 131 to 140 in full: every location-valued property
  gets \<open>P131\<close>, then \<open>P69\<close> gets \<open>P361\<close>.
\<close>

definition init :: "sling_module \<Rightarrow> knowledge_base \<Rightarrow> fact_extractor \<Rightarrow> fact_matcher" where
  "init sl k ex =
     \<lparr> sling = sl, kb = k, extractor = ex,
       unique_properties = unique_scan k,
       date_properties = date_scan k,
       location_properties = location_scan k,
       closure_properties =
         (fold (\<lambda>p m. m(p \<mapsto> ''P131'')) (location_scan k) Map.empty)(''P69'' \<mapsto> ''P361''),
       p_subclass = ''P279'',
       p_parent_org = ''P749'' \<rparr>"

text \<open>\<open>FactMatcher._date_valued\<close>, lines 144 to 145.\<close>

definition date_valued :: "fact_matcher \<Rightarrow> frame \<Rightarrow> bool" where
  "date_valued fm prop = (prop \<in> date_properties fm)"

text \<open>
  \<open>FactMatcher._existing_facts\<close>, lines 150 to 158. \<open>prop[0]\<close> raises IndexError on an
  empty path. \<open>fact[:-1]\<close> is \<open>butlast fact\<close>; \<open>fact[-1]\<close> is read only when
  \<open>fact[:-1]\<close> equals the non-empty path, so the fact is not empty there.
\<close>

definition existing_facts ::
  "fact_matcher \<Rightarrow> frame \<Rightarrow> frame list \<Rightarrow> bool \<Rightarrow> error + val list" where
  "existing_facts fm item prop closure =
     (case prop of
        [] \<Rightarrow> Inl IndexError
      | pid # _ \<Rightarrow>
          (let facts = facts_for (extractor fm) item [pid] closure
           in Inr (map last (filter (\<lambda>fact. butlast fact = map Frame prop) facts))))"

text \<open>
  \<open>FactMatcher.subsumes\<close>, lines 182 to 193, a relation between entities:
  \<open>for_item\<close> calls it on the proposed frame and on existing values that are frames.
\<close>

definition subsumes :: "fact_matcher \<Rightarrow> frame \<Rightarrow> frame \<Rightarrow> frame \<Rightarrow> bool" where
  "subsumes fm prop coarse0 fine0 =
     (let coarse = resolve (kb fm) coarse0;
          fine = resolve (kb fm) fine0
      in if coarse = fine then True
         else (case closure_properties fm prop of
                 Some closure_property \<Rightarrow>
                   in_closure (extractor fm) closure_property coarse fine
               | None \<Rightarrow>
                   in_closure (extractor fm) (p_subclass fm) coarse fine
                   \<or> in_closure (extractor fm) (p_parent_org fm) coarse fine))"

text \<open>
  The \<open>prop\<close> argument of \<open>for_item\<close>: one property frame, or a sequence of them
  (a \<open>sling.Array\<close> or a list).
\<close>

datatype prop_arg = PropFrame frame | PropPath "frame list"

text \<open>Lines 205 to 208: a single property becomes a path of one element.\<close>

definition prop_list :: "prop_arg \<Rightarrow> frame list" where
  "prop_list prop0 = (case prop0 of PropFrame p \<Rightarrow> [p] | PropPath ps \<Rightarrow> ps)"

text \<open>
  \<open>FactMatcher.for_item\<close>, lines 203 to 260; \<open>val0\<close> is the argument \<open>value\<close> of the
  source. The assertion on it comes first; each \<open>for ... if ... return\<close> loop is
  \<open>list_ex\<close>; the \<open>isinstance(existing, sling.Frame)\<close> guard is the case distinction
  on the existing value.
\<close>

definition for_item :: "fact_matcher \<Rightarrow> frame \<Rightarrow> prop_arg \<Rightarrow> val \<Rightarrow> error + FactMatchType" where
  "for_item fm item prop0 val0 =
     (case val0 of
        Frame v \<Rightarrow>
          (let prop = prop_list prop0 in
           case existing_facts fm item prop False of
             Inl e \<Rightarrow> Inl e
           | Inr exact_facts \<Rightarrow>
               Inr (if length exact_facts = 0 then NEW
                    else if val0 \<in> set exact_facts then EXACT
                    else
                      (let dated = date_valued fm (last prop);
                           proposed_date = Date (sling fm) val0;
                           existing_dates = map (Date (sling fm)) exact_facts
                       in
                         if dated \<and> list_ex (\<lambda>e. date_value (sling fm) e
                                                  = date_value (sling fm) proposed_date)
                                             existing_dates
                         then EXACT
                         else if (if dated
                                  then list_ex (\<lambda>e. finer_date e proposed_date) existing_dates
                                  else list_ex (\<lambda>existing. case existing of
                                                   Frame x \<Rightarrow> subsumes fm (last prop) v x
                                                 | _ \<Rightarrow> False) exact_facts)
                         then SUBSUMES_EXISTING
                         else if (if dated
                                  then list_ex (\<lambda>e. finer_date proposed_date e) existing_dates
                                  else list_ex (\<lambda>existing. case existing of
                                                   Frame x \<Rightarrow> subsumes fm (last prop) x v
                                                 | _ \<Rightarrow> False) exact_facts)
                         then SUBSUMED_BY_EXISTING
                         else if length prop = 1 \<and> prop ! 0 \<in> unique_properties fm
                         then CONFLICT
                         else ADDITIONAL)))
      | _ \<Rightarrow> Inl AssertionError)"

subsection \<open>The aggregator\<close>

text \<open>
  \<open>FactMatcher.Output\<close>, lines 63 to 73. The two \<open>defaultdict\<close>s are maps read with
  their default (0, the empty list) where the key is missing.
\<close>

record Output =
  counts :: "FactMatchType \<rightharpoonup> nat"
  source_items :: "FactMatchType \<rightharpoonup> frame list"

definition Output_init :: Output where
  "Output_init = \<lparr> counts = Map.empty, source_items = Map.empty \<rparr>"

definition count_of :: "Output \<Rightarrow> FactMatchType \<Rightarrow> nat" where
  "count_of out t = (case counts out t of None \<Rightarrow> 0 | Some n \<Rightarrow> n)"

definition items_of :: "Output \<Rightarrow> FactMatchType \<Rightarrow> frame list" where
  "items_of out t = (case source_items out t of None \<Rightarrow> [] | Some xs \<Rightarrow> xs)"

definition MAX_SOURCE_ITEMS :: nat where
  "MAX_SOURCE_ITEMS = 10"

definition TYPES_WITH_EXEMPLARS_ONLY :: "FactMatchType set" where
  "TYPES_WITH_EXEMPLARS_ONLY = {EXACT, CONFLICT, SUBSUMES_EXISTING}"

text \<open>\<open>Output.add\<close>, lines 69 to 73.\<close>

definition add :: "Output \<Rightarrow> FactMatchType \<Rightarrow> frame \<Rightarrow> Output" where
  "add out match_type source_item =
     (let out1 = out\<lparr> counts := (counts out)(match_type \<mapsto> count_of out match_type + 1) \<rparr>
      in if match_type \<notin> TYPES_WITH_EXEMPLARS_ONLY
            \<or> length (items_of out1 match_type) < MAX_SOURCE_ITEMS
         then out1\<lparr> source_items :=
                      (source_items out1)(match_type \<mapsto> items_of out1 match_type @ [source_item]) \<rparr>
         else out1)"

text \<open>
  \<open>FactMatcher.for_items\<close>, lines 264 to 271: the loop over the items, stopped by the
  first error of \<open>for_item\<close>.
\<close>

fun for_items_loop ::
  "fact_matcher \<Rightarrow> frame list \<Rightarrow> prop_arg \<Rightarrow> val \<Rightarrow> Output \<Rightarrow> error + Output" where
  "for_items_loop fm [] prop val0 output = Inr output"
| "for_items_loop fm (item # items) prop val0 output =
     (case for_item fm item prop val0 of
        Inl e \<Rightarrow> Inl e
      | Inr match \<Rightarrow> for_items_loop fm items prop val0 (add output match item))"

definition for_items ::
  "fact_matcher \<Rightarrow> frame list \<Rightarrow> prop_arg \<Rightarrow> val \<Rightarrow> error + Output" where
  "for_items fm items prop val0 = for_items_loop fm items prop val0 Output_init"

text \<open>A sequence of additions to an output, in order.\<close>

fun add_all :: "Output \<Rightarrow> (FactMatchType \<times> frame) list \<Rightarrow> Output" where
  "add_all out [] = out"
| "add_all out ((match_type, source_item) # rest) = add_all (add out match_type source_item) rest"

subsection \<open>The batch pipeline\<close>















subsection \<open>The rules of the classifier, in the spec's words\<close>

text \<open>
  Section 4.5 of the spec, rules 1 to 5, as predicates of the terminal property \<open>p\<close>, the
  proposed entity \<open>v\<close> and the existing facts \<open>fs\<close>.
\<close>

definition rule_NEW :: "val list \<Rightarrow> bool" where
  "rule_NEW fs = (fs = [])"

definition rule_EXACT :: "fact_matcher \<Rightarrow> frame \<Rightarrow> frame \<Rightarrow> val list \<Rightarrow> bool" where
  "rule_EXACT fm p v fs =
     (Frame v \<in> set fs
      \<or> (date_valued fm p
          \<and> list_ex (\<lambda>e. date_value (sling fm) (Date (sling fm) e)
                          = date_value (sling fm) (Date (sling fm) (Frame v))) fs))"

definition rule_SUBSUMES :: "fact_matcher \<Rightarrow> frame \<Rightarrow> frame \<Rightarrow> val list \<Rightarrow> bool" where
  "rule_SUBSUMES fm p v fs =
     (if date_valued fm p
      then list_ex (\<lambda>e. finer_date (Date (sling fm) e) (Date (sling fm) (Frame v))) fs
      else list_ex (\<lambda>e. case e of Frame x \<Rightarrow> subsumes fm p v x | _ \<Rightarrow> False) fs)"

definition rule_SUBSUMED :: "fact_matcher \<Rightarrow> frame \<Rightarrow> frame \<Rightarrow> val list \<Rightarrow> bool" where
  "rule_SUBSUMED fm p v fs =
     (if date_valued fm p
      then list_ex (\<lambda>e. finer_date (Date (sling fm) (Frame v)) (Date (sling fm) e)) fs
      else list_ex (\<lambda>e. case e of Frame x \<Rightarrow> subsumes fm p x v | _ \<Rightarrow> False) fs)"

subsection \<open>An example knowledge base\<close>

text \<open>
  A small instance of the collaborators, for evaluating the matcher on concrete inputs.
  The entity \<open>E\<close> has a date of birth \<open>P569\<close> stored as the integer 1990 (precision
  YEAR), a spouse \<open>P26\<close>, a place of birth \<open>P19\<close> in Paris and two occupations \<open>P106\<close>; the
  frame \<open>t1990_03\<close> is the date March 1990 (precision MONTH). Paris is located in France,
  and a physicist is a scientist. The scalar of a date is its digits, year first, cut at
  its precision.
\<close>

definition ex_sling :: sling_module where
  "ex_sling =
     \<lparr> Date = (\<lambda>x. if x = IntV 1990 then \<lparr>precision = YEAR, year = 1990, month = 0, day = 0\<rparr>
                   else if x = Frame ''t1990_03''
                     then \<lparr>precision = MONTH, year = 1990, month = 3, day = 0\<rparr>
                   else \<lparr>precision = DAY, year = 1, month = 1, day = 1\<rparr>),
       date_value = (\<lambda>d. IntV (case precision d of
                                  MILLENNIUM \<Rightarrow> year d div 1000
                                | CENTURY \<Rightarrow> year d div 100
                                | DECADE \<Rightarrow> year d div 10
                                | YEAR \<Rightarrow> year d
                                | MONTH \<Rightarrow> year d * 100 + month d
                                | DAY \<Rightarrow> year d * 10000 + month d * 100 + day d)) \<rparr>"

definition ex_kb :: knowledge_base where
  "ex_kb =
     \<lparr> resolve = (\<lambda>x. x),
       unique_scan = {''P569'', ''P26''},
       date_scan = {''P569''},
       location_scan = [''P19''] \<rparr>"

definition ex_facts :: "frame \<Rightarrow> frame list \<Rightarrow> bool \<Rightarrow> val list list" where
  "ex_facts item ps closure =
     (if item = ''E'' \<and> ps = [''P569''] then [[Frame ''P569'', IntV 1990]]
      else if item = ''E'' \<and> ps = [''P26''] then [[Frame ''P26'', Frame ''X'']]
      else if item = ''E'' \<and> ps = [''P19''] then [[Frame ''P19'', Frame ''Paris'']]
      else if item = ''E'' \<and> ps = [''P106'']
        then [[Frame ''P106'', Frame ''physicist''], [Frame ''P106'', Frame ''chemist'']]
      else [])"

definition ex_extractor :: fact_extractor where
  "ex_extractor =
     \<lparr> facts_for = ex_facts,
       in_closure = (\<lambda>relation coarse fine.
          (relation = ''P131'' \<and> coarse = ''France'' \<and> fine = ''Paris'')
          \<or> (relation = ''P279'' \<and> coarse = ''scientist'' \<and> fine = ''physicist'')) \<rparr>"

definition ex_matcher :: fact_matcher where
  "ex_matcher = init ex_sling ex_kb ex_extractor"

text \<open>The same extractor, returning its facts in the opposite order.\<close>

definition ex_extractor_rev :: fact_extractor where
  "ex_extractor_rev =
     ex_extractor\<lparr> facts_for := (\<lambda>item ps closure. rev (ex_facts item ps closure)) \<rparr>"

text \<open>Twelve additions of EXACT and two of NEW, for evaluating the aggregator.\<close>

definition ex_adds :: "(FactMatchType \<times> frame) list" where
  "ex_adds = replicate 12 (EXACT, ''a'') @ [(NEW, ''b''), (NEW, ''c'')]"





subsection \<open>Properties of the date comparator\<close>

lemma prec_rank_le_6: "prec_rank p \<le> 6"
  by (cases p) simp_all

text \<open>
  C4. \<open>finer(first, second)\<close> is true iff \<open>first\<close> has strictly finer precision than
  \<open>second\<close> and lies in the granule of \<open>second\<close> (1000, 100 or 10 years from
  \<open>second.year\<close> for MILLENNIUM, CENTURY, DECADE; the same year for YEAR; the same year
  and month for MONTH), and it is false whenever \<open>second\<close> has DAY precision.
\<close>

theorem finer_date_iff:
  "finer_date a b = (strictly_finer a b \<and> in_granule a b)
   \<and> (precision b = DAY \<longrightarrow> \<not> finer_date a b)"
proof -
  have "prec_rank (precision a) \<le> 6" by (rule prec_rank_le_6)
  then show ?thesis
    by (cases "precision b")
       (auto simp: finer_date_def in_granule_def strictly_finer_def)
qed

theorem finer_date_iff_witness:
  "precision \<lparr>precision = DAY, year = 1990, month = 3, day = 5\<rparr> = DAY
   \<and> \<not> finer_date \<lparr>precision = DAY, year = 1990, month = 3, day = 5\<rparr>
                   \<lparr>precision = DAY, year = 1990, month = 3, day = 5\<rparr>
   \<and> finer_date \<lparr>precision = MONTH, year = 1990, month = 3, day = 0\<rparr>
                \<lparr>precision = DECADE, year = 1990, month = 0, day = 0\<rparr>
   \<and> strictly_finer \<lparr>precision = MONTH, year = 1990, month = 3, day = 0\<rparr>
                    \<lparr>precision = DECADE, year = 1990, month = 0, day = 0\<rparr>
   \<and> in_granule \<lparr>precision = MONTH, year = 1990, month = 3, day = 0\<rparr>
                \<lparr>precision = DECADE, year = 1990, month = 0, day = 0\<rparr>"
  using finer_date_iff [of "\<lparr>precision = DAY, year = 1990, month = 3, day = 5\<rparr>"
                           "\<lparr>precision = DAY, year = 1990, month = 3, day = 5\<rparr>"]
        finer_date_iff [of "\<lparr>precision = MONTH, year = 1990, month = 3, day = 0\<rparr>"
                           "\<lparr>precision = DECADE, year = 1990, month = 0, day = 0\<rparr>"]
  by (simp add: strictly_finer_def in_granule_def)

lemma granule_nested:
  fixes a b c m n :: int
  assumes n: "0 < n" and b: "n dvd b" and c: "n * m dvd c"
    and bc: "b < c + n * m" and ab: "a < b + n"
  shows "a < c + n * m"
proof -
  from b obtain k where k: "b = n * k" by auto
  from c obtain j where j: "c = n * m * j" by auto
  from bc k j have "n * k < n * (m * j + m)" by (simp add: algebra_simps)
  with n have "k < m * j + m" by simp
  then have "k + 1 \<le> m * j + m" by simp
  with n have "n * (k + 1) \<le> n * (m * j + m)" by simp
  with ab k j show ?thesis by (simp add: algebra_simps)
qed

lemma in_1000_100:
  "(100::int) dvd b \<Longrightarrow> 1000 dvd c \<Longrightarrow> b < c + 1000 \<Longrightarrow> a < b + 100 \<Longrightarrow> a < c + 1000"
  using granule_nested [of 100 b 10 c a] by simp

lemma in_1000_10:
  "(10::int) dvd b \<Longrightarrow> 1000 dvd c \<Longrightarrow> b < c + 1000 \<Longrightarrow> a < b + 10 \<Longrightarrow> a < c + 1000"
  using granule_nested [of 10 b 100 c a] by simp

lemma in_100_10:
  "(10::int) dvd b \<Longrightarrow> 100 dvd c \<Longrightarrow> b < c + 100 \<Longrightarrow> a < b + 10 \<Longrightarrow> a < c + 100"
  using granule_nested [of 10 b 10 c a] by simp

lemma finer_date_unfold:
  "finer_date a b = (strictly_finer a b \<and> in_granule a b)"
proof -
  have "prec_rank (precision a) \<le> 6" by (rule prec_rank_le_6)
  then show ?thesis
    by (cases "precision b")
       (auto simp: finer_date_def in_granule_def strictly_finer_def)
qed

lemma in_granule_trans:
  assumes "aligned b" "aligned c" "strictly_finer b c" "in_granule b c" "in_granule a b"
  shows "in_granule a c"
proof (cases "precision c")
  case MILLENNIUM
  with assms(2,4) have c: "1000 dvd year c" "year c \<le> year b" "year b < year c + 1000"
    by (simp_all add: aligned_def in_granule_def mod_eq_0_iff_dvd)
  show ?thesis
  proof (cases "precision b")
    case CENTURY
    with assms(1,5) have "100 dvd year b" "year b \<le> year a" "year a < year b + 100"
      by (simp_all add: aligned_def in_granule_def mod_eq_0_iff_dvd)
    with c in_1000_100 [of "year b" "year c" "year a"] MILLENNIUM show ?thesis
      by (simp add: in_granule_def)
  next
    case DECADE
    with assms(1,5) have "10 dvd year b" "year b \<le> year a" "year a < year b + 10"
      by (simp_all add: aligned_def in_granule_def mod_eq_0_iff_dvd)
    with c in_1000_10 [of "year b" "year c" "year a"] MILLENNIUM show ?thesis
      by (simp add: in_granule_def)
  qed (use assms MILLENNIUM c in \<open>simp_all add: in_granule_def strictly_finer_def\<close>)
next
  case CENTURY
  with assms(2,4) have c: "100 dvd year c" "year c \<le> year b" "year b < year c + 100"
    by (simp_all add: aligned_def in_granule_def mod_eq_0_iff_dvd)
  show ?thesis
  proof (cases "precision b")
    case DECADE
    with assms(1,5) have "10 dvd year b" "year b \<le> year a" "year a < year b + 10"
      by (simp_all add: aligned_def in_granule_def mod_eq_0_iff_dvd)
    with c in_100_10 [of "year b" "year c" "year a"] CENTURY show ?thesis
      by (simp add: in_granule_def)
  qed (use assms CENTURY c in \<open>simp_all add: in_granule_def strictly_finer_def\<close>)
next
  case DECADE
  with assms show ?thesis
    by (cases "precision b") (simp_all add: in_granule_def strictly_finer_def)
next
  case YEAR
  with assms show ?thesis
    by (cases "precision b") (simp_all add: in_granule_def strictly_finer_def)
next
  case MONTH
  with assms show ?thesis
    by (cases "precision b") (simp_all add: in_granule_def strictly_finer_def)
next
  case DAY
  with assms(3) prec_rank_le_6 [of "precision b"] show ?thesis
    by (simp add: strictly_finer_def)
qed

lemma finer_date_trans:
  "aligned b \<Longrightarrow> aligned c \<Longrightarrow> finer_date a b \<Longrightarrow> finer_date b c \<Longrightarrow> finer_date a c"
  using in_granule_trans [of b c a]
  by (auto simp: finer_date_unfold strictly_finer_def)

lemma finer_date_asym: "\<not> (finer_date a b \<and> finer_date b a)"
  by (auto simp: finer_date_unfold strictly_finer_def)

lemma finer_date_irrefl: "\<not> finer_date a a"
  by (simp add: finer_date_def)

text \<open>
  C5. \<open>finer\<close> is irreflexive and asymmetric on all dates: \<open>finer(a,b)\<close> and
  \<open>finer(b,a)\<close> are never both true, and \<open>finer(a,a)\<close> is false. It is transitive
  through aligned dates, so on aligned dates it is a strict partial order; on arbitrary
  dates it is not transitive.
\<close>

theorem finer_date_strict:
  "\<not> (finer_date a b \<and> finer_date b a)
   \<and> \<not> finer_date a a
   \<and> (aligned b \<and> aligned c \<and> finer_date a b \<and> finer_date b c \<longrightarrow> finer_date a c)"
  using finer_date_asym [of a b] finer_date_irrefl [of a] finer_date_trans [of b c a]
  by blast

theorem finer_date_strict_witness:
  "aligned \<lparr>precision = DECADE, year = 1990, month = 0, day = 0\<rparr>
   \<and> aligned \<lparr>precision = CENTURY, year = 1900, month = 0, day = 0\<rparr>
   \<and> finer_date \<lparr>precision = YEAR, year = 1993, month = 0, day = 0\<rparr>
                \<lparr>precision = DECADE, year = 1990, month = 0, day = 0\<rparr>
   \<and> finer_date \<lparr>precision = DECADE, year = 1990, month = 0, day = 0\<rparr>
                \<lparr>precision = CENTURY, year = 1900, month = 0, day = 0\<rparr>
   \<and> finer_date \<lparr>precision = YEAR, year = 1993, month = 0, day = 0\<rparr>
                \<lparr>precision = CENTURY, year = 1900, month = 0, day = 0\<rparr>"
  using finer_date_strict [of "\<lparr>precision = YEAR, year = 1993, month = 0, day = 0\<rparr>"
                              "\<lparr>precision = DECADE, year = 1990, month = 0, day = 0\<rparr>"
                              "\<lparr>precision = CENTURY, year = 1900, month = 0, day = 0\<rparr>"]
  by (simp add: aligned_def finer_date_def)

text \<open>
  The year 2003 lies in the ten years from 1995, and 1995 in the hundred years from 1900,
  but 2003 does not lie in the hundred years from 1900: \<open>finer\<close> is not transitive.
\<close>

theorem finer_date_not_transitive:
  "finer_date \<lparr>precision = YEAR, year = 2003, month = 0, day = 0\<rparr>
              \<lparr>precision = DECADE, year = 1995, month = 0, day = 0\<rparr>
   \<and> finer_date \<lparr>precision = DECADE, year = 1995, month = 0, day = 0\<rparr>
                \<lparr>precision = CENTURY, year = 1900, month = 0, day = 0\<rparr>
   \<and> \<not> finer_date \<lparr>precision = YEAR, year = 2003, month = 0, day = 0\<rparr>
                    \<lparr>precision = CENTURY, year = 1900, month = 0, day = 0\<rparr>"
  by (simp add: finer_date_def)

subsection \<open>Properties of the classifier\<close>

lemma for_item_unfold:
  assumes "existing_facts fm item (prop_list prop) False = Inr fs"
  shows "for_item fm item prop (Frame v) =
     Inr (if fs = [] then NEW
          else if Frame v \<in> set fs then EXACT
          else if date_valued fm (last (prop_list prop))
                  \<and> list_ex (\<lambda>e. date_value (sling fm) e
                                  = date_value (sling fm) (Date (sling fm) (Frame v)))
                            (map (Date (sling fm)) fs)
          then EXACT
          else if (if date_valued fm (last (prop_list prop))
                   then list_ex (\<lambda>e. finer_date e (Date (sling fm) (Frame v)))
                                (map (Date (sling fm)) fs)
                   else list_ex (\<lambda>existing. case existing of
                                    Frame x \<Rightarrow> subsumes fm (last (prop_list prop)) v x
                                  | _ \<Rightarrow> False) fs)
          then SUBSUMES_EXISTING
          else if (if date_valued fm (last (prop_list prop))
                   then list_ex (\<lambda>e. finer_date (Date (sling fm) (Frame v)) e)
                                (map (Date (sling fm)) fs)
                   else list_ex (\<lambda>existing. case existing of
                                    Frame x \<Rightarrow> subsumes fm (last (prop_list prop)) x v
                                  | _ \<Rightarrow> False) fs)
          then SUBSUMED_BY_EXISTING
          else if length (prop_list prop) = 1 \<and> prop_list prop ! 0 \<in> unique_properties fm
          then CONFLICT
          else ADDITIONAL)"
  using assms by (simp add: for_item_def Let_def)

lemma for_item_rules:
  assumes "existing_facts fm item (prop_list prop) False = Inr fs"
  shows "for_item fm item prop (Frame v) =
     Inr (if rule_NEW fs then NEW
          else if rule_EXACT fm (last (prop_list prop)) v fs then EXACT
          else if rule_SUBSUMES fm (last (prop_list prop)) v fs then SUBSUMES_EXISTING
          else if rule_SUBSUMED fm (last (prop_list prop)) v fs then SUBSUMED_BY_EXISTING
          else if length (prop_list prop) = 1 \<and> prop_list prop ! 0 \<in> unique_properties fm
          then CONFLICT
          else ADDITIONAL)"
  unfolding for_item_unfold [OF assms] rule_NEW_def rule_EXACT_def rule_SUBSUMES_def
    rule_SUBSUMED_def
  by (simp add: list_ex_iff)

lemma for_item_Inr:
  assumes "for_item fm item prop val0 = Inr m"
  shows "\<exists>v fs. val0 = Frame v \<and> existing_facts fm item (prop_list prop) False = Inr fs"
  using assms by (auto simp: for_item_def Let_def split: val.splits sum.splits)

lemma existing_facts_Inr:
  "existing_facts fm item prop closure = Inr fs \<Longrightarrow> prop \<noteq> []"
  by (auto simp: existing_facts_def split: list.splits)

lemma ex_matcher_sel:
  "sling ex_matcher = ex_sling" "kb ex_matcher = ex_kb" "extractor ex_matcher = ex_extractor"
  "unique_properties ex_matcher = {''P569'', ''P26''}" "date_properties ex_matcher = {''P569''}"
  "p_subclass ex_matcher = ''P279''" "p_parent_org ex_matcher = ''P749''"
  by (simp_all add: ex_matcher_def init_def ex_kb_def)

lemma ex_existing_facts:
  "existing_facts ex_matcher ''E'' [''P569''] False = Inr [IntV 1990]"
  "existing_facts ex_matcher ''E'' [''P26''] False = Inr [Frame ''X'']"
  "existing_facts ex_matcher ''E'' [''P19''] False = Inr [Frame ''Paris'']"
  "existing_facts ex_matcher ''E'' [''P106''] False = Inr [Frame ''physicist'', Frame ''chemist'']"
  "existing_facts ex_matcher ''F'' [''P106''] False = Inr []"
  by (simp_all add: existing_facts_def ex_matcher_sel ex_extractor_def ex_facts_def)

text \<open>
  C1. For a proposed entity and a non-empty property path, if the existing facts fetched
  without closure backoff are empty, \<open>for_item\<close> returns NEW, whatever the proposed
  entity is.
\<close>

theorem for_item_new:
  assumes "prop_list prop \<noteq> []"
    and "existing_facts fm item (prop_list prop) False = Inr []"
  shows "for_item fm item prop (Frame v) = Inr NEW"
  using assms(2) by (simp add: for_item_unfold)

theorem for_item_new_witness:
  "prop_list (PropFrame ''P106'') \<noteq> []
   \<and> existing_facts ex_matcher ''F'' (prop_list (PropFrame ''P106'')) False = Inr []
   \<and> for_item ex_matcher ''F'' (PropFrame ''P106'') (Frame ''painter'') = Inr NEW"
proof -
  have a: "prop_list (PropFrame ''P106'') \<noteq> []" by (simp add: prop_list_def)
  have b: "existing_facts ex_matcher ''F'' (prop_list (PropFrame ''P106'')) False = Inr []"
    by (simp add: prop_list_def ex_existing_facts)
  from a b for_item_new [OF a b, of "''painter''"] show ?thesis by simp
qed

text \<open>
  C2. If the proposed entity is literally among the existing facts, \<open>for_item\<close> returns
  EXACT, and so it does with any extractor that returns the same existing facts in
  another order.
\<close>

theorem for_item_exact:
  assumes "prop_list prop \<noteq> []"
    and "existing_facts fm item (prop_list prop) False = Inr fs"
    and "Frame v \<in> set fs"
    and "existing_facts (fm\<lparr>extractor := ex'\<rparr>) item (prop_list prop) False = Inr fs'"
    and "set fs' = set fs"
  shows "for_item fm item prop (Frame v) = Inr EXACT
         \<and> for_item (fm\<lparr>extractor := ex'\<rparr>) item prop (Frame v) = Inr EXACT"
proof -
  from assms(3) have "fs \<noteq> []" by auto
  with assms(2,3) have a: "for_item fm item prop (Frame v) = Inr EXACT"
    by (simp add: for_item_unfold)
  from assms(3,5) have "fs' \<noteq> []" "Frame v \<in> set fs'" by auto
  with assms(4) have "for_item (fm\<lparr>extractor := ex'\<rparr>) item prop (Frame v) = Inr EXACT"
    by (simp add: for_item_unfold)
  with a show ?thesis by simp
qed

theorem for_item_exact_witness:
  "prop_list (PropFrame ''P106'') \<noteq> []
   \<and> existing_facts ex_matcher ''E'' (prop_list (PropFrame ''P106'')) False
       = Inr [Frame ''physicist'', Frame ''chemist'']
   \<and> existing_facts (ex_matcher\<lparr>extractor := ex_extractor_rev\<rparr>) ''E''
         (prop_list (PropFrame ''P106'')) False
       = Inr [Frame ''chemist'', Frame ''physicist'']
   \<and> for_item ex_matcher ''E'' (PropFrame ''P106'') (Frame ''chemist'') = Inr EXACT
   \<and> for_item (ex_matcher\<lparr>extractor := ex_extractor_rev\<rparr>) ''E'' (PropFrame ''P106'')
         (Frame ''chemist'') = Inr EXACT"
proof -
  have a: "prop_list (PropFrame ''P106'') \<noteq> []" by (simp add: prop_list_def)
  have b: "existing_facts ex_matcher ''E'' (prop_list (PropFrame ''P106'')) False
       = Inr [Frame ''physicist'', Frame ''chemist'']"
    by (simp add: prop_list_def ex_existing_facts)
  have c: "existing_facts (ex_matcher\<lparr>extractor := ex_extractor_rev\<rparr>) ''E''
         (prop_list (PropFrame ''P106'')) False
       = Inr [Frame ''chemist'', Frame ''physicist'']"
    by (simp add: prop_list_def existing_facts_def ex_extractor_rev_def ex_facts_def)
  have d: "Frame ''chemist'' \<in> set [Frame ''physicist'', Frame ''chemist'']" by simp
  have e: "set [Frame ''chemist'', Frame ''physicist'']
           = set [Frame ''physicist'', Frame ''chemist'']" by auto
  from a b c for_item_exact [OF a b d c e] show ?thesis by simp
qed

text \<open>
  C3. For an entity whose only existing fact for a date-valued property is a date of
  precision YEAR and year 1990, a proposed date of precision MONTH, March 1990, that is
  neither the same literal nor the same scalar, is classified SUBSUMED\_BY\_EXISTING:
  an existing fact is coarser than the proposed one.
\<close>

theorem for_item_year_month:
  assumes "existing_facts fm item [p] False = Inr [e]"
    and "date_valued fm p"
    and "e \<noteq> Frame v"
    and "precision (Date (sling fm) e) = YEAR" and "year (Date (sling fm) e) = 1990"
    and "precision (Date (sling fm) (Frame v)) = MONTH"
    and "year (Date (sling fm) (Frame v)) = 1990"
    and "month (Date (sling fm) (Frame v)) = 3"
    and "date_value (sling fm) (Date (sling fm) e)
         \<noteq> date_value (sling fm) (Date (sling fm) (Frame v))"
  shows "for_item fm item (PropFrame p) (Frame v) = Inr SUBSUMED_BY_EXISTING"
proof -
  have pl: "prop_list (PropFrame p) = [p]" by (simp add: prop_list_def)
  from assms(4,6) have a: "\<not> finer_date (Date (sling fm) e) (Date (sling fm) (Frame v))"
    by (simp add: finer_date_def)
  from assms(4-7) have b: "finer_date (Date (sling fm) (Frame v)) (Date (sling fm) e)"
    by (simp add: finer_date_def)
  from assms(1) pl have "existing_facts fm item (prop_list (PropFrame p)) False = Inr [e]"
    by simp
  from for_item_unfold [OF this, of v] assms(2,3,9) a b pl show ?thesis
    by auto
qed

theorem for_item_year_month_witness:
  "existing_facts ex_matcher ''E'' [''P569''] False = Inr [IntV 1990]
   \<and> date_valued ex_matcher ''P569''
   \<and> for_item ex_matcher ''E'' (PropFrame ''P569'') (Frame ''t1990_03'') = Inr SUBSUMED_BY_EXISTING"
proof -
  have s: "sling ex_matcher = ex_sling" by (simp add: ex_matcher_def init_def)
  have a: "existing_facts ex_matcher ''E'' [''P569''] False = Inr [IntV 1990]"
    by (simp add: existing_facts_def ex_matcher_def init_def ex_extractor_def ex_facts_def)
  have b: "date_valued ex_matcher ''P569''"
    by (simp add: date_valued_def ex_matcher_def init_def ex_kb_def)
  have c: "for_item ex_matcher ''E'' (PropFrame ''P569'') (Frame ''t1990_03'') = Inr SUBSUMED_BY_EXISTING"
    by (rule for_item_year_month [OF a b]) (simp_all add: s ex_sling_def)
  from a b c show ?thesis by simp
qed

text \<open>
  In the example, the existing date of birth of \<open>E\<close> is the year 1990 and the proposed one
  is March 1990: the classification is SUBSUMED\_BY\_EXISTING, not SUBSUMES\_EXISTING.
\<close>

theorem for_item_year_month_not_subsumes:
  "existing_facts ex_matcher ''E'' [''P569''] False = Inr [IntV 1990]
   \<and> Date (sling ex_matcher) (IntV 1990)
       = \<lparr>precision = YEAR, year = 1990, month = 0, day = 0\<rparr>
   \<and> Date (sling ex_matcher) (Frame ''t1990_03'')
       = \<lparr>precision = MONTH, year = 1990, month = 3, day = 0\<rparr>
   \<and> for_item ex_matcher ''E'' (PropFrame ''P569'') (Frame ''t1990_03'')
       \<noteq> Inr SUBSUMES_EXISTING"
proof -
  have "existing_facts ex_matcher ''E'' (prop_list (PropFrame ''P569'')) False = Inr [IntV 1990]"
    by (simp add: prop_list_def ex_existing_facts)
  from for_item_unfold [OF this, of "''t1990_03''"] show ?thesis
    by (simp add: ex_existing_facts ex_matcher_sel ex_sling_def date_valued_def finer_date_def)
qed

subsection \<open>Properties of subsumption\<close>

lemma fold_upd_const:
  "fold (\<lambda>p m. m(p \<mapsto> r)) ps m0 q = (if q \<in> set ps then Some r else m0 q)"
  by (induction ps arbitrary: m0) auto

lemma closure_properties_init:
  "closure_properties (init sl k ex) prop =
     (if prop = ''P69'' then Some ''P361''
      else if prop \<in> set (location_scan k) then Some ''P131'' else None)"
  by (simp add: init_def fold_upd_const)

lemma subsumes_of_init:
  "subsumes (init sl k ex) prop coarse fine =
     (resolve k coarse = resolve k fine
      \<or> (if prop = ''P69'' then in_closure ex ''P361'' (resolve k coarse) (resolve k fine)
          else if prop \<in> set (location_scan k)
            then in_closure ex ''P131'' (resolve k coarse) (resolve k fine)
          else in_closure ex ''P279'' (resolve k coarse) (resolve k fine)
               \<or> in_closure ex ''P749'' (resolve k coarse) (resolve k fine)))"
proof -
  have sel: "kb (init sl k ex) = k" "extractor (init sl k ex) = ex"
    "p_subclass (init sl k ex) = ''P279''" "p_parent_org (init sl k ex) = ''P749''"
    by (simp_all add: init_def)
  show ?thesis
    unfolding subsumes_def Let_def closure_properties_init sel by simp
qed

text \<open>
  C6. \<open>subsumes\<close> resolves both entities and returns true when they are then equal.
  Otherwise, for a property with an assigned closure relation it returns \<open>in_closure\<close>
  over exactly that relation: part-of (\<open>P361\<close>) for educated-at (\<open>P69\<close>), the special
  case, and located-in (\<open>P131\<close>) for the location-valued properties; for every other
  property it returns the disjunction of \<open>in_closure\<close> over subclass-of (\<open>P279\<close>) and
  over parent-organization (\<open>P749\<close>).
\<close>

theorem subsumes_init:
  "subsumes (init sl k ex) prop coarse fine =
     (resolve k coarse = resolve k fine
      \<or> (if prop = ''P69'' then in_closure ex ''P361'' (resolve k coarse) (resolve k fine)
          else if prop \<in> set (location_scan k)
            then in_closure ex ''P131'' (resolve k coarse) (resolve k fine)
          else in_closure ex ''P279'' (resolve k coarse) (resolve k fine)
               \<or> in_closure ex ''P749'' (resolve k coarse) (resolve k fine)))"
  by (rule subsumes_of_init)

subsection \<open>Subsumption and conflict in the classifier\<close>

text \<open>
  C7. For a terminal property that is not date-valued, once NEW and EXACT are ruled out
  (the existing facts are not empty and do not contain the proposed entity), \<open>for_item\<close>
  returns SUBSUMES\_EXISTING if \<open>subsumes(terminal property, proposed, existing)\<close> holds
  for an existing entity.
\<close>

theorem for_item_subsumes:
  assumes "existing_facts fm item (prop_list prop) False = Inr fs"
    and "\<not> date_valued fm (last (prop_list prop))"
    and "fs \<noteq> []" and "Frame v \<notin> set fs"
    and "Frame x \<in> set fs"
    and "subsumes fm (last (prop_list prop)) v x"
  shows "for_item fm item prop (Frame v) = Inr SUBSUMES_EXISTING"
proof -
  from assms(5,6)
  have "list_ex (\<lambda>existing. case existing of
                    Frame x \<Rightarrow> subsumes fm (last (prop_list prop)) v x
                  | _ \<Rightarrow> False) fs"
    unfolding list_ex_iff by (rule_tac x = "Frame x" in bexI) simp_all
  with assms(1-4) show ?thesis by (simp add: for_item_unfold)
qed

theorem for_item_subsumes_witness:
  "existing_facts ex_matcher ''E'' (prop_list (PropFrame ''P19'')) False = Inr [Frame ''Paris'']
   \<and> \<not> date_valued ex_matcher (last (prop_list (PropFrame ''P19'')))
   \<and> Frame ''France'' \<notin> set [Frame ''Paris'']
   \<and> subsumes ex_matcher (last (prop_list (PropFrame ''P19''))) ''France'' ''Paris''
   \<and> for_item ex_matcher ''E'' (PropFrame ''P19'') (Frame ''France'') = Inr SUBSUMES_EXISTING"
proof -
  have a: "existing_facts ex_matcher ''E'' (prop_list (PropFrame ''P19'')) False
           = Inr [Frame ''Paris'']"
    by (simp add: prop_list_def ex_existing_facts)
  have b: "\<not> date_valued ex_matcher (last (prop_list (PropFrame ''P19'')))"
    by (simp add: prop_list_def date_valued_def ex_matcher_sel)
  have c: "[Frame ''Paris''] \<noteq> []" by simp
  have d: "Frame ''France'' \<notin> set [Frame ''Paris'']" by simp
  have e: "Frame ''Paris'' \<in> set [Frame ''Paris'']" by simp
  have f: "subsumes ex_matcher (last (prop_list (PropFrame ''P19''))) ''France'' ''Paris''"
    by (simp add: prop_list_def subsumes_def ex_matcher_def closure_properties_init
          init_def ex_kb_def ex_extractor_def)
  from a b d f for_item_subsumes [OF a b c d e f] show ?thesis by simp
qed

text \<open>
  C8. \<open>for_item\<close> returns CONFLICT only for a path of length 1 whose property is
  unique-valued, and only when none of the rules NEW, EXACT, SUBSUMES\_EXISTING and
  SUBSUMED\_BY\_EXISTING applies; when none of them applies, it returns CONFLICT for such
  a path and ADDITIONAL for every other one.
\<close>

theorem for_item_conflict:
  "(for_item fm item prop val0 = Inr CONFLICT \<longrightarrow>
      length (prop_list prop) = 1 \<and> prop_list prop ! 0 \<in> unique_properties fm
      \<and> (\<exists>v fs. val0 = Frame v
            \<and> existing_facts fm item (prop_list prop) False = Inr fs
            \<and> \<not> rule_NEW fs
            \<and> \<not> rule_EXACT fm (last (prop_list prop)) v fs
            \<and> \<not> rule_SUBSUMES fm (last (prop_list prop)) v fs
            \<and> \<not> rule_SUBSUMED fm (last (prop_list prop)) v fs))
   \<and> (existing_facts fm item (prop_list prop) False = Inr fs
        \<and> \<not> rule_NEW fs
        \<and> \<not> rule_EXACT fm (last (prop_list prop)) v fs
        \<and> \<not> rule_SUBSUMES fm (last (prop_list prop)) v fs
        \<and> \<not> rule_SUBSUMED fm (last (prop_list prop)) v fs \<longrightarrow>
      for_item fm item prop (Frame v) =
        Inr (if length (prop_list prop) = 1 \<and> prop_list prop ! 0 \<in> unique_properties fm
             then CONFLICT else ADDITIONAL))"
proof (intro conjI impI)
  assume c: "for_item fm item prop val0 = Inr CONFLICT"
  then obtain v fs where vf: "val0 = Frame v"
      "existing_facts fm item (prop_list prop) False = Inr fs"
    using for_item_Inr by blast
  from c vf have r: "\<not> rule_NEW fs \<and> \<not> rule_EXACT fm (last (prop_list prop)) v fs
      \<and> \<not> rule_SUBSUMES fm (last (prop_list prop)) v fs
      \<and> \<not> rule_SUBSUMED fm (last (prop_list prop)) v fs
      \<and> length (prop_list prop) = 1 \<and> prop_list prop ! 0 \<in> unique_properties fm"
    by (simp add: for_item_rules split: if_splits)
  then show "length (prop_list prop) = 1" by simp
  from r show "prop_list prop ! 0 \<in> unique_properties fm" by simp
  from r vf show "\<exists>v fs. val0 = Frame v
            \<and> existing_facts fm item (prop_list prop) False = Inr fs
            \<and> \<not> rule_NEW fs
            \<and> \<not> rule_EXACT fm (last (prop_list prop)) v fs
            \<and> \<not> rule_SUBSUMES fm (last (prop_list prop)) v fs
            \<and> \<not> rule_SUBSUMED fm (last (prop_list prop)) v fs" by blast
next
  assume "existing_facts fm item (prop_list prop) False = Inr fs
        \<and> \<not> rule_NEW fs
        \<and> \<not> rule_EXACT fm (last (prop_list prop)) v fs
        \<and> \<not> rule_SUBSUMES fm (last (prop_list prop)) v fs
        \<and> \<not> rule_SUBSUMED fm (last (prop_list prop)) v fs"
  then show "for_item fm item prop (Frame v) =
        Inr (if length (prop_list prop) = 1 \<and> prop_list prop ! 0 \<in> unique_properties fm
             then CONFLICT else ADDITIONAL)"
    by (simp add: for_item_rules)
qed

lemma prop_list_PropFrame: "prop_list (PropFrame p) = [p]"
  by (simp add: prop_list_def)

lemma ex_date_valued: "date_valued ex_matcher p = (p = ''P569'')"
  by (simp add: date_valued_def ex_matcher_sel)

lemma ex_subsumes:
  "subsumes ex_matcher p c f =
     (c = f \<or> (if p = ''P69'' then False
                else if p = ''P19'' then c = ''France'' \<and> f = ''Paris''
                else c = ''scientist'' \<and> f = ''physicist''))"
  unfolding ex_matcher_def subsumes_of_init
  by (simp add: ex_kb_def ex_extractor_def)

theorem for_item_conflict_witness:
  "existing_facts ex_matcher ''E'' (prop_list (PropFrame ''P26'')) False = Inr [Frame ''X'']
   \<and> \<not> rule_NEW [Frame ''X'']
   \<and> \<not> rule_EXACT ex_matcher (last (prop_list (PropFrame ''P26''))) ''Y'' [Frame ''X'']
   \<and> \<not> rule_SUBSUMES ex_matcher (last (prop_list (PropFrame ''P26''))) ''Y'' [Frame ''X'']
   \<and> \<not> rule_SUBSUMED ex_matcher (last (prop_list (PropFrame ''P26''))) ''Y'' [Frame ''X'']
   \<and> length (prop_list (PropFrame ''P26'')) = 1
   \<and> prop_list (PropFrame ''P26'') ! 0 \<in> unique_properties ex_matcher
   \<and> for_item ex_matcher ''E'' (PropFrame ''P26'') (Frame ''Y'') = Inr CONFLICT
   \<and> for_item ex_matcher ''E'' (PropFrame ''P106'') (Frame ''painter'') = Inr ADDITIONAL"
proof -
  let ?fs = "[Frame ''physicist'', Frame ''chemist'']"
  have a: "existing_facts ex_matcher ''E'' (prop_list (PropFrame ''P26'')) False = Inr [Frame ''X'']"
    by (simp add: prop_list_PropFrame ex_existing_facts)
  have b: "\<not> rule_NEW [Frame ''X'']"
    "\<not> rule_EXACT ex_matcher (last (prop_list (PropFrame ''P26''))) ''Y'' [Frame ''X'']"
    "\<not> rule_SUBSUMES ex_matcher (last (prop_list (PropFrame ''P26''))) ''Y'' [Frame ''X'']"
    "\<not> rule_SUBSUMED ex_matcher (last (prop_list (PropFrame ''P26''))) ''Y'' [Frame ''X'']"
    by (simp_all add: rule_NEW_def rule_EXACT_def rule_SUBSUMES_def rule_SUBSUMED_def
          prop_list_PropFrame ex_date_valued ex_subsumes)
  have c: "length (prop_list (PropFrame ''P26'')) = 1"
    "prop_list (PropFrame ''P26'') ! 0 \<in> unique_properties ex_matcher"
    by (simp_all add: prop_list_PropFrame ex_matcher_sel)
  have d: "existing_facts ex_matcher ''E'' (prop_list (PropFrame ''P106'')) False = Inr ?fs"
    by (simp add: prop_list_PropFrame ex_existing_facts)
  have e: "\<not> rule_NEW ?fs"
    "\<not> rule_EXACT ex_matcher (last (prop_list (PropFrame ''P106''))) ''painter'' ?fs"
    "\<not> rule_SUBSUMES ex_matcher (last (prop_list (PropFrame ''P106''))) ''painter'' ?fs"
    "\<not> rule_SUBSUMED ex_matcher (last (prop_list (PropFrame ''P106''))) ''painter'' ?fs"
    by (simp_all add: rule_NEW_def rule_EXACT_def rule_SUBSUMES_def rule_SUBSUMED_def
          prop_list_PropFrame ex_date_valued ex_subsumes)
  have f: "\<not> (length (prop_list (PropFrame ''P106'')) = 1
              \<and> prop_list (PropFrame ''P106'') ! 0 \<in> unique_properties ex_matcher)"
    by (simp add: prop_list_PropFrame ex_matcher_sel)
  have t1: "for_item ex_matcher ''E'' (PropFrame ''P26'') (Frame ''Y'') =
        Inr (if length (prop_list (PropFrame ''P26'')) = 1
                \<and> prop_list (PropFrame ''P26'') ! 0 \<in> unique_properties ex_matcher
             then CONFLICT else ADDITIONAL)"
    using for_item_conflict [of ex_matcher "''E''" "PropFrame ''P26''" "Frame ''Y''"
        "[Frame ''X'']" "''Y''"] a b by blast
  have t2: "for_item ex_matcher ''E'' (PropFrame ''P106'') (Frame ''painter'') =
        Inr (if length (prop_list (PropFrame ''P106'')) = 1
                \<and> prop_list (PropFrame ''P106'') ! 0 \<in> unique_properties ex_matcher
             then CONFLICT else ADDITIONAL)"
    using for_item_conflict [of ex_matcher "''E''" "PropFrame ''P106''" "Frame ''painter''"
        ?fs "''painter''"] d e by blast
  from t1 c have g: "for_item ex_matcher ''E'' (PropFrame ''P26'') (Frame ''Y'') = Inr CONFLICT"
    by simp
  from t2 f have h: "for_item ex_matcher ''E'' (PropFrame ''P106'') (Frame ''painter'') = Inr ADDITIONAL"
    by simp
  from a b c g h show ?thesis by blast
qed

subsection \<open>Properties of the aggregator\<close>

lemma count_of_add:
  "count_of (add out m i) t = (if t = m then count_of out t + 1 else count_of out t)"
  by (simp add: add_def count_of_def Let_def)

lemma items_of_add:
  "items_of (add out m i) t =
     (if t = m \<and> (m \<notin> TYPES_WITH_EXEMPLARS_ONLY \<or> length (items_of out m) < MAX_SOURCE_ITEMS)
      then items_of out t @ [i] else items_of out t)"
  by (simp add: add_def items_of_def Let_def)

lemma add_keeps_lengths:
  assumes "\<And>t. length (items_of out t) =
             (if t \<in> TYPES_WITH_EXEMPLARS_ONLY then min (count_of out t) MAX_SOURCE_ITEMS
              else count_of out t)"
  shows "length (items_of (add out m i) t) =
             (if t \<in> TYPES_WITH_EXEMPLARS_ONLY then min (count_of (add out m i) t) MAX_SOURCE_ITEMS
              else count_of (add out m i) t)"
  using assms [of t] by (auto simp: items_of_add count_of_add)

lemma add_all_lengths:
  assumes "\<And>t. length (items_of out t) =
             (if t \<in> TYPES_WITH_EXEMPLARS_ONLY then min (count_of out t) MAX_SOURCE_ITEMS
              else count_of out t)"
  shows "length (items_of (add_all out xs) t) =
             (if t \<in> TYPES_WITH_EXEMPLARS_ONLY then min (count_of (add_all out xs) t) MAX_SOURCE_ITEMS
              else count_of (add_all out xs) t)"
  using assms
proof (induction xs arbitrary: out t)
  case Nil
  then show ?case by simp
next
  case (Cons x xs)
  obtain m i where x: "x = (m, i)" by (cases x)
  have "\<And>t. length (items_of (add out m i) t) =
             (if t \<in> TYPES_WITH_EXEMPLARS_ONLY then min (count_of (add out m i) t) MAX_SOURCE_ITEMS
              else count_of (add out m i) t)"
    by (rule add_keeps_lengths) (rule Cons.prems)
  from Cons.IH [OF this] x show ?case by simp
qed

lemma count_of_add_all:
  "count_of (add_all out xs) t = count_of out t + count_list (map fst xs) t"
  by (induction xs arbitrary: out) (auto simp: count_of_add)

lemma Output_init_lengths:
  "length (items_of Output_init t) =
             (if t \<in> TYPES_WITH_EXEMPLARS_ONLY then min (count_of Output_init t) MAX_SOURCE_ITEMS
              else count_of Output_init t)"
  by (simp add: Output_init_def items_of_def count_of_def)

lemma for_items_loop_add_all:
  "for_items_loop fm items prop v out = Inr out' \<Longrightarrow>
     \<exists>xs. out' = add_all out xs \<and> map snd xs = items"
proof (induction items arbitrary: out)
  case Nil
  then show ?case by (intro exI [of _ "[]"]) simp
next
  case (Cons item items)
  from Cons.prems obtain m where m: "for_item fm item prop v = Inr m"
    and r: "for_items_loop fm items prop v (add out m item) = Inr out'"
    by (auto split: sum.splits)
  from Cons.IH [OF r] obtain xs where "out' = add_all (add out m item) xs" "map snd xs = items"
    by blast
  then show ?case by (intro exI [of _ "(m, item) # xs"]) simp
qed

lemma uncapped_types:
  "(t \<notin> TYPES_WITH_EXEMPLARS_ONLY) = (t \<in> {NEW, SUBSUMED_BY_EXISTING, ADDITIONAL})"
  by (cases t) (simp_all add: TYPES_WITH_EXEMPLARS_ONLY_def)

text \<open>
  C9. After any sequence of additions to an empty output, the exemplar list of each of
  EXACT, CONFLICT and SUBSUMES\_EXISTING has at most 10 entries, and the exemplar list
  of each of NEW, SUBSUMED\_BY\_EXISTING and ADDITIONAL is as long as the count of
  that classification, which is the number of additions of it. The same holds of every
  output that \<open>for_items\<close> returns.
\<close>

theorem exemplar_lists:
  "(t \<in> {EXACT, CONFLICT, SUBSUMES_EXISTING} \<longrightarrow>
      length (items_of (add_all Output_init xs) t) \<le> 10)
   \<and> (t \<in> {NEW, SUBSUMED_BY_EXISTING, ADDITIONAL} \<longrightarrow>
      length (items_of (add_all Output_init xs) t) = count_of (add_all Output_init xs) t)
   \<and> count_of (add_all Output_init xs) t = count_list (map fst xs) t
   \<and> (for_items fm items prop v = Inr out \<longrightarrow>
        (t \<in> {EXACT, CONFLICT, SUBSUMES_EXISTING} \<longrightarrow> length (items_of out t) \<le> 10)
        \<and> (t \<in> {NEW, SUBSUMED_BY_EXISTING, ADDITIONAL} \<longrightarrow>
             length (items_of out t) = count_of out t))"
proof -
  have len: "length (items_of (add_all Output_init ys) t) =
             (if t \<in> TYPES_WITH_EXEMPLARS_ONLY
              then min (count_of (add_all Output_init ys) t) MAX_SOURCE_ITEMS
              else count_of (add_all Output_init ys) t)" for ys
    by (rule add_all_lengths) (rule Output_init_lengths)
  have capped: "t \<in> {EXACT, CONFLICT, SUBSUMES_EXISTING} \<Longrightarrow>
      length (items_of (add_all Output_init ys) t) \<le> 10" for ys
    using len [of ys] by (simp add: TYPES_WITH_EXEMPLARS_ONLY_def MAX_SOURCE_ITEMS_def)
  have uncapped: "t \<in> {NEW, SUBSUMED_BY_EXISTING, ADDITIONAL} \<Longrightarrow>
      length (items_of (add_all Output_init ys) t) = count_of (add_all Output_init ys) t" for ys
    using len [of ys] uncapped_types [of t] by simp
  have cnt: "count_of (add_all Output_init xs) t = count_list (map fst xs) t"
    by (simp add: count_of_add_all) (simp add: count_of_def Output_init_def)
  have fi: "(t \<in> {EXACT, CONFLICT, SUBSUMES_EXISTING} \<longrightarrow> length (items_of out t) \<le> 10)
        \<and> (t \<in> {NEW, SUBSUMED_BY_EXISTING, ADDITIONAL} \<longrightarrow>
             length (items_of out t) = count_of out t)"
    if "for_items fm items prop v = Inr out"
  proof -
    from that obtain ys where "out = add_all Output_init ys"
      unfolding for_items_def using for_items_loop_add_all by blast
    with capped [of ys] uncapped [of ys] show ?thesis by blast
  qed
  from capped [of xs] uncapped [of xs] cnt fi show ?thesis by blast
qed

lemma ex_for_item_chemist:
  "for_item ex_matcher ''E'' (PropFrame ''P106'') (Frame ''chemist'') = Inr EXACT"
  "for_item ex_matcher ''F'' (PropFrame ''P106'') (Frame ''chemist'') = Inr NEW"
  by (simp_all add: for_item_unfold prop_list_PropFrame ex_existing_facts)

lemma ex_for_items_chemist:
  "for_items ex_matcher [''E'', ''F''] (PropFrame ''P106'') (Frame ''chemist'')
     = Inr (add_all Output_init [(EXACT, ''E''), (NEW, ''F'')])"
  by (simp add: for_items_def ex_for_item_chemist)

theorem exemplar_lists_witness:
  "EXACT \<in> {EXACT, CONFLICT, SUBSUMES_EXISTING}
   \<and> length (items_of (add_all Output_init ex_adds) EXACT) \<le> 10
   \<and> count_of (add_all Output_init ex_adds) EXACT = 12
   \<and> NEW \<in> {NEW, SUBSUMED_BY_EXISTING, ADDITIONAL}
   \<and> length (items_of (add_all Output_init ex_adds) NEW)
       = count_of (add_all Output_init ex_adds) NEW
   \<and> count_of (add_all Output_init ex_adds) NEW = 2
   \<and> for_items ex_matcher [''E'', ''F''] (PropFrame ''P106'') (Frame ''chemist'')
       = Inr (add_all Output_init [(EXACT, ''E''), (NEW, ''F'')])
   \<and> length (items_of (add_all Output_init [(EXACT, ''E''), (NEW, ''F'')]) NEW)
       = count_of (add_all Output_init [(EXACT, ''E''), (NEW, ''F'')]) NEW"
proof -
  have c: "count_list (map fst ex_adds) EXACT = 12" "count_list (map fst ex_adds) NEW = 2"
    by code_simp+
  note t1 = exemplar_lists [of EXACT ex_adds ex_matcher "[''E'', ''F'']" "PropFrame ''P106''"
      "Frame ''chemist''" "add_all Output_init [(EXACT, ''E''), (NEW, ''F'')]"]
  note t2 = exemplar_lists [of NEW ex_adds ex_matcher "[''E'', ''F'']" "PropFrame ''P106''"
      "Frame ''chemist''" "add_all Output_init [(EXACT, ''E''), (NEW, ''F'')]"]
  have e: "EXACT \<in> {EXACT, CONFLICT, SUBSUMES_EXISTING}"
    and n: "NEW \<in> {NEW, SUBSUMED_BY_EXISTING, ADDITIONAL}" by simp_all
  from t1 e have a1: "length (items_of (add_all Output_init ex_adds) EXACT) \<le> 10" by blast
  from t1 c have a2: "count_of (add_all Output_init ex_adds) EXACT = 12" by simp
  from t2 n have a3: "length (items_of (add_all Output_init ex_adds) NEW)
       = count_of (add_all Output_init ex_adds) NEW" by blast
  from t2 c have a4: "count_of (add_all Output_init ex_adds) NEW = 2" by simp
  from t2 n ex_for_items_chemist
  have a5: "length (items_of (add_all Output_init [(EXACT, ''E''), (NEW, ''F'')]) NEW)
       = count_of (add_all Output_init [(EXACT, ''E''), (NEW, ''F'')]) NEW" by blast
  from e n a1 a2 a3 a4 a5 ex_for_items_chemist show ?thesis by blast
qed

subsection \<open>Properties of the batch pipeline\<close>



















end
